theory Spec2Isabelle
  imports Main "HOL-Library.Sublist"
begin

section \<open>Python values handled by the pipeline\<close>

text \<open>
  The orchestrator of \<^verbatim>\<open>src/research_blog_orchestrator.py\<close> and the adapter of
  \<^verbatim>\<open>src/langchain_blog_agent.py\<close> probe reply objects with \<^verbatim>\<open>hasattr\<close>,
  \<^verbatim>\<open>isinstance(_, str)\<close> and \<^verbatim>\<open>str(_)\<close>. A reply is therefore modelled by
  what those probes can see: \<^verbatim>\<open>None\<close>, a \<^verbatim>\<open>str\<close>, or any other object, given by
  its optional \<^verbatim>\<open>text\<close>, \<^verbatim>\<open>content\<close> and \<^verbatim>\<open>metadata\<close> attributes (absent
  attribute = \<open>None\<close> of the option type) and by the string \<^verbatim>\<open>str(obj)\<close> returns.
  Attribute values are Python values again. Attribute access and \<^verbatim>\<open>str\<close> are taken
  not to raise (no raising properties).
\<close>

text \<open>One entry of \<^verbatim>\<open>intermediate_steps\<close> as the adapter reads it: \<^verbatim>\<open>len(step)\<close>,
  the \<^verbatim>\<open>tool\<close> attribute of \<^verbatim>\<open>step[0]\<close> when it has one, and \<^verbatim>\<open>str(step[1])\<close>.\<close>

record step =
  step_len :: nat
  tool_name :: "string option"
  tool_output_str :: string

text \<open>Values stored in a metadata dictionary; the dictionary is an association list in
  insertion order.\<close>

datatype mval = MStr string | MInt int | MSteps "step list"

type_synonym metadata = "(string \<times> mval) list"

datatype pyval =
    PNone
  | PStr string
  | PObj "pyval option" "pyval option" "metadata option" string

text \<open>\<^verbatim>\<open>getattr(x, 'text', <absent>)\<close>; \<^verbatim>\<open>hasattr(x, 'text')\<close> is
  \<open>getattr_text x \<noteq> None\<close>. \<^verbatim>\<open>None\<close> and \<^verbatim>\<open>str\<close> objects have none of the
  three attributes.\<close>

fun getattr_text :: "pyval \<Rightarrow> pyval option" where
  "getattr_text (PObj t c m s) = t"
| "getattr_text PNone = None"
| "getattr_text (PStr s) = None"

fun getattr_content :: "pyval \<Rightarrow> pyval option" where
  "getattr_content (PObj t c m s) = c"
| "getattr_content PNone = None"
| "getattr_content (PStr s) = None"

fun getattr_metadata :: "pyval \<Rightarrow> metadata option" where
  "getattr_metadata (PObj t c m s) = m"
| "getattr_metadata PNone = None"
| "getattr_metadata (PStr s) = None"

fun isinstance_str :: "pyval \<Rightarrow> bool" where
  "isinstance_str (PStr s) = True"
| "isinstance_str PNone = False"
| "isinstance_str (PObj t c m s) = False"

text \<open>\<^verbatim>\<open>str(x)\<close>, which is also what an f-string substitutes for \<^verbatim>\<open>{x}\<close>.\<close>

fun py_str :: "pyval \<Rightarrow> string" where
  "py_str PNone = ''None''"
| "py_str (PStr s) = s"
| "py_str (PObj t c m s) = s"

section \<open>The result normalizer of \<^verbatim>\<open>create_blog_from_topic\<close>\<close>

text \<open>
  \<^verbatim>\<open>
  def extract_content(result):
      if result is None:
          return "No content generated"
      elif isinstance(result, str):
          return result
      elif hasattr(result, 'text'):
          return result.text
      elif hasattr(result, 'content'):
          return result.content
      else:
          return str(result)

  def extract_metadata(result):
      if result is None or isinstance(result, str):
          return {}
      else:
          return getattr(result, 'metadata', {})
  \<close>
\<close>

definition extract_content :: "pyval \<Rightarrow> pyval" where
  "extract_content result =
     (if result = PNone then PStr ''No content generated''
      else if isinstance_str result then result
      else (case getattr_text result of
              Some v \<Rightarrow> v
            | None \<Rightarrow> (case getattr_content result of
                         Some v \<Rightarrow> v
                       | None \<Rightarrow> PStr (py_str result))))"

definition extract_metadata :: "pyval \<Rightarrow> metadata" where
  "extract_metadata result =
     (if result = PNone \<or> isinstance_str result then []
      else (case getattr_metadata result of Some m \<Rightarrow> m | None \<Rightarrow> []))"

text \<open>The pair \<^verbatim>\<open>{"content": extract_content(r), "metadata": extract_metadata(r)}\<close>
  that \<^verbatim>\<open>create_blog_from_topic\<close> builds for each of the two results.\<close>

definition normalize_reply :: "pyval \<Rightarrow> pyval \<times> metadata" where
  "normalize_reply result = (extract_content result, extract_metadata result)"

section \<open>Exceptions\<close>

text \<open>
  A raised exception is a value. \<^verbatim>\<open>CancelledError\<close> stands for the exceptions that
  derive from \<^verbatim>\<open>BaseException\<close> only (\<^verbatim>\<open>asyncio.CancelledError\<close>,
  \<^verbatim>\<open>KeyboardInterrupt\<close>): \<^verbatim>\<open>except Exception\<close> lets them through, a bare
  \<^verbatim>\<open>except:\<close> does not. \<open>TransportError\<close> is any exception of the hosted service's
  client, with its message.
\<close>

datatype error =
    TypeError string
  | KeyError string
  | ValueError string
  | AttributeError string
  | TransportError string
  | CancelledError

fun is_Exception :: "error \<Rightarrow> bool" where
  "is_Exception CancelledError = False"
| "is_Exception (TypeError m) = True"
| "is_Exception (KeyError k) = True"
| "is_Exception (ValueError m) = True"
| "is_Exception (AttributeError m) = True"
| "is_Exception (TransportError m) = True"

text \<open>\<^verbatim>\<open>str(e)\<close>: the message; for a \<^verbatim>\<open>KeyError\<close> the \<^verbatim>\<open>repr\<close> of the key.\<close>

fun str_exc :: "error \<Rightarrow> string" where
  "str_exc (TypeError m) = m"
| "str_exc (KeyError k) = [CHR 0x27] @ k @ [CHR 0x27]"
| "str_exc (ValueError m) = m"
| "str_exc (AttributeError m) = m"
| "str_exc (TransportError m) = m"
| "str_exc CancelledError = []"

section \<open>Agents\<close>

text \<open>
  An agent is an object of an external SDK. A call to it may change the world \<open>'w\<close>
  (the remote service, a log) and either raises or returns a Python value. The workflow
  sees an agent through the attributes it probes: \<^verbatim>\<open>get_response\<close> and \<^verbatim>\<open>run\<close>
  (each with the answer of \<^verbatim>\<open>asyncio.iscoroutinefunction\<close>), \<^verbatim>\<open>sync_run\<close>, the
  agent being callable itself, and \<^verbatim>\<open>close\<close>.
\<close>

type_synonym 'w agent_method = "string \<Rightarrow> 'w \<Rightarrow> (error + pyval) \<times> 'w"

record 'w agent =
  agent_get_response :: "(bool \<times> 'w agent_method) option"
  agent_run :: "(bool \<times> 'w agent_method) option"
  agent_sync_run :: "'w agent_method option"
  agent_call :: "'w agent_method option"
  agent_close :: "('w \<Rightarrow> (error + unit) \<times> 'w) option"

text \<open>\<^verbatim>\<open>hasattr(agent, name) and asyncio.iscoroutinefunction(agent.name)\<close>, giving
  that attribute when the test holds.\<close>

fun coroutine_method :: "(bool \<times> 'm) option \<Rightarrow> 'm option" where
  "coroutine_method None = None"
| "coroutine_method (Some (is_coroutine, m)) = (if is_coroutine then Some m else None)"

text \<open>\<^verbatim>\<open>hasattr(agent, name)\<close> alone.\<close>

fun any_method :: "(bool \<times> 'm) option \<Rightarrow> 'm option" where
  "any_method None = None"
| "any_method (Some (is_coroutine, m)) = Some m"

text \<open>
  The unwrapping chain after \<^verbatim>\<open>get_response\<close> (lines 40-45):
  \<^verbatim>\<open>
  if hasattr(result, 'content'): result = result.content
  elif hasattr(result, 'text'):  result = result.text
  elif not isinstance(result, str): result = str(result)
  \<close>
\<close>

definition unwrap_content_first :: "pyval \<Rightarrow> pyval" where
  "unwrap_content_first result =
     (case getattr_content result of
        Some v \<Rightarrow> v
      | None \<Rightarrow> (case getattr_text result of
                   Some v \<Rightarrow> v
                 | None \<Rightarrow> if isinstance_str result then result else PStr (py_str result)))"

text \<open>
  The chain after \<^verbatim>\<open>run\<close> and \<^verbatim>\<open>sync_run\<close> (lines 49-54, 58-63, 67-72), which is
  also the one computing \<^verbatim>\<open>research_content\<close> (lines 82-88):
  \<^verbatim>\<open>
  if hasattr(result, 'text'): result = result.text
  elif hasattr(result, 'content'): result = result.content
  elif not isinstance(result, str): result = str(result)
  \<close>
\<close>

definition unwrap_text_first :: "pyval \<Rightarrow> pyval" where
  "unwrap_text_first result =
     (case getattr_text result of
        Some v \<Rightarrow> v
      | None \<Rightarrow> (case getattr_content result of
                   Some v \<Rightarrow> v
                 | None \<Rightarrow> if isinstance_str result then result else PStr (py_str result)))"

text \<open>Continue with \<open>f\<close> on the returned value; a raised exception passes through.\<close>

fun on_return :: "(pyval \<Rightarrow> pyval) \<Rightarrow> (error + pyval) \<times> 'w \<Rightarrow> (error + pyval) \<times> 'w" where
  "on_return f (Inl e, w) = (Inl e, w)"
| "on_return f (Inr v, w) = (Inr (f v), w)"

text \<open>
  Lines 36-75 of \<^verbatim>\<open>SequentialWorkflow.run\<close>: the dispatch on the agent's shape and
  the unwrapping of its reply. The last branch, \<^verbatim>\<open>await agent(current_input)\<close>, keeps
  the reply as it is and raises \<^verbatim>\<open>TypeError\<close> for an object that is not callable.
\<close>

definition invoke_agent :: "'w agent \<Rightarrow> string \<Rightarrow> 'w \<Rightarrow> (error + pyval) \<times> 'w" where
  "invoke_agent agent current_input w =
     (case coroutine_method (agent_get_response agent) of
        Some m \<Rightarrow> on_return unwrap_content_first (m current_input w)
      | None \<Rightarrow>
     (case coroutine_method (agent_run agent) of
        Some m \<Rightarrow> on_return unwrap_text_first (m current_input w)
      | None \<Rightarrow>
     (case agent_sync_run agent of
        Some m \<Rightarrow> on_return unwrap_text_first (m current_input w)
      | None \<Rightarrow>
     (case any_method (agent_run agent) of
        Some m \<Rightarrow> on_return unwrap_text_first (m current_input w)
      | None \<Rightarrow>
     (case agent_call agent of
        Some m \<Rightarrow> m current_input w
      | None \<Rightarrow> (Inl (TypeError ''object is not callable''), w))))))"

text \<open>
  The two halves of that dispatch, named apart. \<open>selected_call\<close> is the call the branch
  taken for an agent makes (lines 38, 47, 56, 65 and 75; for an object that is not
  callable the last one raises). \<open>selected_unwrap\<close> is the unwrapping chain that follows
  the call in the same branch; the last branch has none and keeps the reply as returned.
\<close>

definition selected_call :: "'w agent \<Rightarrow> 'w agent_method" where
  "selected_call agent =
     (case coroutine_method (agent_get_response agent) of
        Some m \<Rightarrow> m
      | None \<Rightarrow>
     (case coroutine_method (agent_run agent) of
        Some m \<Rightarrow> m
      | None \<Rightarrow>
     (case agent_sync_run agent of
        Some m \<Rightarrow> m
      | None \<Rightarrow>
     (case any_method (agent_run agent) of
        Some m \<Rightarrow> m
      | None \<Rightarrow>
     (case agent_call agent of
        Some m \<Rightarrow> m
      | None \<Rightarrow> (\<lambda>current_input w. (Inl (TypeError ''object is not callable''), w)))))))"

definition selected_unwrap :: "'w agent \<Rightarrow> pyval \<Rightarrow> pyval" where
  "selected_unwrap agent =
     (case coroutine_method (agent_get_response agent) of
        Some m \<Rightarrow> unwrap_content_first
      | None \<Rightarrow>
     (case coroutine_method (agent_run agent) of
        Some m \<Rightarrow> unwrap_text_first
      | None \<Rightarrow>
     (case agent_sync_run agent of
        Some m \<Rightarrow> unwrap_text_first
      | None \<Rightarrow>
     (case any_method (agent_run agent) of
        Some m \<Rightarrow> unwrap_text_first
      | None \<Rightarrow> (\<lambda>result. result)))))"

section \<open>The sequential workflow\<close>

text \<open>The f-string of lines 90-105, with its line breaks and its indentation of sixteen
  spaces.\<close>

definition NL :: string where
  "NL = [CHR 0x0A]"

definition indent :: string where
  "indent = replicate 16 (CHR '' '')"

definition blog_prompt :: "string \<Rightarrow> string" where
  "blog_prompt research_content = concat
     [NL,
      indent, ''Transform the following research content into an engaging blog post:'', NL,
      indent, NL,
      indent, ''Research Content:'', NL,
      indent, research_content, NL,
      indent, NL,
      indent, ''Requirements:'', NL,
      indent, ''- Create a compelling headline and introduction'', NL,
      indent, ''- Use clear section headers and structure'', NL,
      indent, ''- Include practical examples and applications'', NL,
      indent, ''- Make complex concepts accessible'', NL,
      indent, ''- Ensure proper markdown formatting'', NL,
      indent, ''- Conclude with key takeaways and next steps'', NL,
      indent, NL,
      indent, ''Create a complete, publication-ready blog post.'', NL,
      indent]"

text \<open>
  Lines 80-105: the value of \<^verbatim>\<open>current_input\<close> after stage \<open>i\<close> of \<open>n\<close> has
  returned \<open>result\<close>.
  \<^verbatim>\<open>
  if i == 0 and len(self.agents) > 1:
      research_content = <text-first unwrapping of result>
      current_input = f"""...{research_content}..."""
  \<close>
\<close>

definition next_input :: "nat \<Rightarrow> nat \<Rightarrow> pyval \<Rightarrow> string \<Rightarrow> string" where
  "next_input n i result current_input =
     (if i = 0 \<and> 1 < n then blog_prompt (py_str (unwrap_text_first result))
      else current_input)"

record 'w SequentialWorkflow =
  agents :: "'w agent list"

text \<open>\<^verbatim>\<open>__init__\<close> stores the list; it has no check and no \<^verbatim>\<open>raise\<close>.\<close>

definition SequentialWorkflow_init :: "'w agent list \<Rightarrow> error + 'w SequentialWorkflow" where
  "SequentialWorkflow_init agent_list = Inr \<lparr>agents = agent_list\<rparr>"

text \<open>
  The loop of \<^verbatim>\<open>run\<close> over \<^verbatim>\<open>enumerate(self.agents)\<close>: \<open>n\<close> is
  \<^verbatim>\<open>len(self.agents)\<close>, \<open>i\<close> the index of the first remaining agent, and the loop state
  is \<^verbatim>\<open>(results, current_input)\<close>. The body has no \<^verbatim>\<open>try\<close>: an exception of the
  agent call leaves the loop and the function.
\<close>

fun run_loop ::
  "nat \<Rightarrow> nat \<Rightarrow> 'w agent list \<Rightarrow> pyval list \<times> string \<Rightarrow> 'w
     \<Rightarrow> (error + pyval list \<times> string) \<times> 'w" where
  "run_loop n i [] st w = (Inr st, w)"
| "run_loop n i (agent # rest) (results, current_input) w =
     (case invoke_agent agent current_input w of
        (Inl e, w') \<Rightarrow> (Inl e, w')
      | (Inr result, w') \<Rightarrow>
          run_loop n (Suc i) rest
            (results @ [result], next_input n i result current_input) w')"

definition run :: "'w SequentialWorkflow \<Rightarrow> string \<Rightarrow> 'w \<Rightarrow> (error + pyval list) \<times> 'w" where
  "run self initial_input w =
     (case run_loop (length (agents self)) 0 (agents self) ([], initial_input) w of
        (Inl e, w') \<Rightarrow> (Inl e, w')
      | (Inr st, w') \<Rightarrow> (Inr (fst st), w'))"

section \<open>The orchestrator\<close>

record 'w orchestrator =
  research_agent :: "'w agent option"
  blog_agent :: "'w agent option"

text \<open>\<^verbatim>\<open>None\<close> in the agent list: an object with none of the probed attributes.\<close>

definition none_object :: "'w agent" where
  "none_object = \<lparr>agent_get_response = None, agent_run = None, agent_sync_run = None,
                   agent_call = None, agent_close = None\<rparr>"

fun agent_object :: "'w agent option \<Rightarrow> 'w agent" where
  "agent_object None = none_object"
| "agent_object (Some a) = a"

record stage_report =
  content :: pyval
  metadata :: metadata

record workflow_results =
  topic :: string
  research :: stage_report
  blog_post :: stage_report
  workflow_status :: string

text \<open>\<^verbatim>\<open>results[k] if len(results) > k else None\<close>\<close>

definition result_at :: "pyval list \<Rightarrow> nat \<Rightarrow> pyval" where
  "result_at results k = (if k < length results then results ! k else PNone)"

definition report :: "pyval \<Rightarrow> stage_report" where
  "report result = \<lparr>content = extract_content result, metadata = extract_metadata result\<rparr>"

text \<open>
  \<^verbatim>\<open>create_blog_from_topic\<close>. \<^verbatim>\<open>initialize\<close> imports the SDKs, reads the
  environment and builds the two clients; it is a parameter here: it may raise, and
  otherwise returns the orchestrator with whatever agents it has set. The workflow is
  built from the two agent fields and run; the dictionary is built from its results with
  the constant status \<^verbatim>\<open>"completed"\<close>. There is no \<^verbatim>\<open>try\<close>.
\<close>

definition create_blog_from_topic ::
  "('w orchestrator \<Rightarrow> 'w \<Rightarrow> (error + 'w orchestrator) \<times> 'w)
     \<Rightarrow> 'w orchestrator \<Rightarrow> string \<Rightarrow> 'w \<Rightarrow> (error + workflow_results) \<times> 'w" where
  "create_blog_from_topic initialize self topic_str w =
     (case (if research_agent self = None \<or> blog_agent self = None
            then initialize self w else (Inr self, w)) of
        (Inl e, w1) \<Rightarrow> (Inl e, w1)
      | (Inr self1, w1) \<Rightarrow>
     (case SequentialWorkflow_init
             [agent_object (research_agent self1), agent_object (blog_agent self1)] of
        Inl e \<Rightarrow> (Inl e, w1)
      | Inr workflow \<Rightarrow>
     (case run workflow topic_str w1 of
        (Inl e, w2) \<Rightarrow> (Inl e, w2)
      | (Inr results, w2) \<Rightarrow>
          (Inr \<lparr>topic = topic_str,
                research = report (result_at results 0),
                blog_post = report (result_at results 1),
                workflow_status = ''completed''\<rparr>, w2))))"

text \<open>
  One block of \<^verbatim>\<open>cleanup\<close>:
  \<^verbatim>\<open>
  if self.research_agent:
      try:
          await self.research_agent.close()
      except:
          pass
  \<close>
  An agent without a \<^verbatim>\<open>close\<close> attribute raises \<^verbatim>\<open>AttributeError\<close> inside the
  \<^verbatim>\<open>try\<close>.
\<close>

definition call_close :: "'w agent \<Rightarrow> 'w \<Rightarrow> (error + unit) \<times> 'w" where
  "call_close agent w =
     (case agent_close agent of
        None \<Rightarrow> (Inl (AttributeError ''object has no attribute close''), w)
      | Some c \<Rightarrow> c w)"

definition close_block :: "'w agent option \<Rightarrow> 'w \<Rightarrow> (error + unit) \<times> 'w" where
  "close_block field w =
     (case field of
        None \<Rightarrow> (Inr (), w)
      | Some agent \<Rightarrow>
          (case call_close agent w of
             (Inl e, w') \<Rightarrow> (Inr (), w')
           | (Inr u, w') \<Rightarrow> (Inr (), w')))"

definition cleanup :: "'w orchestrator \<Rightarrow> 'w \<Rightarrow> (error + unit) \<times> 'w" where
  "cleanup self w =
     (case close_block (research_agent self) w of
        (Inl e, w') \<Rightarrow> (Inl e, w')
      | (Inr u, w') \<Rightarrow> close_block (blog_agent self) w')"

section \<open>The LangChain blog adapter\<close>

text \<open>
  What \<^verbatim>\<open>AgentExecutor.invoke\<close> and \<^verbatim>\<open>ainvoke\<close> return: a dictionary read at
  the keys \<^verbatim>\<open>"output"\<close> (with \<^verbatim>\<open>result["output"]\<close>, a \<^verbatim>\<open>KeyError\<close> when the
  key is missing; field \<open>exec_output\<close>) and \<^verbatim>\<open>"intermediate_steps"\<close> (with
  \<^verbatim>\<open>result.get(_, [])\<close>).
\<close>

record exec_result =
  exec_output :: "string option"
  intermediate_steps :: "step list option"

record 'w agent_executor =
  ainvoke :: "string \<Rightarrow> 'w \<Rightarrow> (error + exec_result) \<times> 'w"
  invoke :: "string \<Rightarrow> 'w \<Rightarrow> (error + exec_result) \<times> 'w"

record 'w LangChainBlogAgent =
  agent_executor :: "'w agent_executor option"

text \<open>
  \<^verbatim>\<open>
  class BlogResult:
      def __init__(self, content: str, metadata: dict = None):
          self.text = content
          self.metadata = metadata or {}
  \<close>
  The object has a \<^verbatim>\<open>text\<close> and a \<^verbatim>\<open>metadata\<close> attribute and no \<^verbatim>\<open>content\<close>
  attribute.
\<close>

definition BlogResult :: "string \<Rightarrow> metadata option \<Rightarrow> pyval" where
  "BlogResult content_arg metadata_arg =
     PObj (Some (PStr content_arg)) None
          (Some (case metadata_arg of None \<Rightarrow> [] | Some m \<Rightarrow> m))
          ''<BlogResult object>''"

text \<open>The reply built in the \<^verbatim>\<open>except Exception as e\<close> handler of \<^verbatim>\<open>run\<close> and
  of \<^verbatim>\<open>sync_run\<close>.\<close>

definition error_result :: "error \<Rightarrow> pyval" where
  "error_result e =
     BlogResult (''Error generating blog post: '' @ str_exc e)
       (Some [(''error'', MStr (str_exc e)), (''agent_type'', MStr ''langchain'')])"

definition get_steps :: "exec_result \<Rightarrow> step list" where
  "get_steps result = (case intermediate_steps result of None \<Rightarrow> [] | Some steps \<Rightarrow> steps)"

definition success_metadata :: "exec_result \<Rightarrow> metadata" where
  "success_metadata result =
     [(''agent_type'', MStr ''langchain''),
      (''intermediate_steps'', MSteps (get_steps result)),
      (''tool_calls'', MInt (int (length (get_steps result))))]"

text \<open>
  Lines 228-237: the first step of a formatting tool whose output is longer than 500
  characters replaces the output; the loop stops there.
\<close>

fun first_formatted :: "step list \<Rightarrow> string \<Rightarrow> string" where
  "first_formatted [] out = out"
| "first_formatted (s # rest) out =
     (if 2 \<le> step_len s
         \<and> (case tool_name s of
               None \<Rightarrow> False
             | Some t \<Rightarrow> t \<in> set [''format_blog_post'', ''add_seo_elements''])
         \<and> 500 < length (tool_output_str s)
      then tool_output_str s
      else first_formatted rest out)"

definition refine_output :: "exec_result \<Rightarrow> string \<Rightarrow> string" where
  "refine_output result out =
     (if sublist ''The blog has been formatted'' out \<or> sublist ''optimized for SEO'' out
      then first_formatted (get_steps result) out
      else out)"

text \<open>\<^verbatim>\<open>if not self.agent_executor: self.initialize()\<close>, which stands before the
  \<^verbatim>\<open>try\<close>. \<^verbatim>\<open>initialize\<close> reads the environment and builds the executor, or
  raises; it is a parameter.\<close>

definition ensure_executor ::
  "('w \<Rightarrow> (error + 'w agent_executor) \<times> 'w) \<Rightarrow> 'w LangChainBlogAgent \<Rightarrow> 'w
     \<Rightarrow> (error + 'w agent_executor) \<times> 'w" where
  "ensure_executor initialize self w =
     (case agent_executor self of None \<Rightarrow> initialize w | Some ex \<Rightarrow> (Inr ex, w))"

text \<open>The \<^verbatim>\<open>try\<close> block of \<^verbatim>\<open>run\<close> (lines 216-252).\<close>

definition run_try :: "'w agent_executor \<Rightarrow> string \<Rightarrow> 'w \<Rightarrow> (error + pyval) \<times> 'w" where
  "run_try ex input_text w =
     (case ainvoke ex input_text w of
        (Inl e, w') \<Rightarrow> (Inl e, w')
      | (Inr result, w') \<Rightarrow>
          (case exec_output result of
             None \<Rightarrow> (Inl (KeyError ''output''), w')
           | Some out \<Rightarrow>
               (Inr (BlogResult (refine_output result out) (Some (success_metadata result))),
                w')))"

text \<open>The \<^verbatim>\<open>try\<close> block of \<^verbatim>\<open>sync_run\<close> (lines 281-299).\<close>

definition sync_run_try :: "'w agent_executor \<Rightarrow> string \<Rightarrow> 'w \<Rightarrow> (error + pyval) \<times> 'w" where
  "sync_run_try ex input_text w =
     (case invoke ex input_text w of
        (Inl e, w') \<Rightarrow> (Inl e, w')
      | (Inr result, w') \<Rightarrow>
          (case exec_output result of
             None \<Rightarrow> (Inl (KeyError ''output''), w')
           | Some out \<Rightarrow> (Inr (BlogResult out (Some (success_metadata result))), w')))"

text \<open>\<^verbatim>\<open>except Exception as e: return BlogResult(f"Error generating blog post: ...")\<close>\<close>

fun except_Exception :: "(error + pyval) \<times> 'w \<Rightarrow> (error + pyval) \<times> 'w" where
  "except_Exception (Inl e, w) = (if is_Exception e then (Inr (error_result e), w) else (Inl e, w))"
| "except_Exception (Inr v, w) = (Inr v, w)"

definition LangChainBlogAgent_run ::
  "('w \<Rightarrow> (error + 'w agent_executor) \<times> 'w) \<Rightarrow> 'w LangChainBlogAgent \<Rightarrow> string \<Rightarrow> 'w
     \<Rightarrow> (error + pyval) \<times> 'w" where
  "LangChainBlogAgent_run initialize self input_text w =
     (case ensure_executor initialize self w of
        (Inl e, w0) \<Rightarrow> (Inl e, w0)
      | (Inr ex, w0) \<Rightarrow> except_Exception (run_try ex input_text w0))"

definition LangChainBlogAgent_sync_run ::
  "('w \<Rightarrow> (error + 'w agent_executor) \<times> 'w) \<Rightarrow> 'w LangChainBlogAgent \<Rightarrow> string \<Rightarrow> 'w
     \<Rightarrow> (error + pyval) \<times> 'w" where
  "LangChainBlogAgent_sync_run initialize self input_text w =
     (case ensure_executor initialize self w of
        (Inl e, w0) \<Rightarrow> (Inl e, w0)
      | (Inr ex, w0) \<Rightarrow> except_Exception (sync_run_try ex input_text w0))"

section \<open>Test doubles\<close>

text \<open>
  Concrete agents for evaluating the definitions above. The world is the log of the
  calls made so far: the name of the agent called and the input it received.
\<close>

type_synonym call_log = "(string \<times> string) list"

text \<open>A callable agent that logs its call and replies with a fixed string.\<close>

definition replying_agent :: "string \<Rightarrow> string \<Rightarrow> call_log agent" where
  "replying_agent name reply =
     \<lparr>agent_get_response = None, agent_run = None, agent_sync_run = None,
      agent_call = Some (\<lambda>inp log. (Inr (PStr reply), log @ [(name, inp)])),
      agent_close = None\<rparr>"

text \<open>An agent whose coroutine \<^verbatim>\<open>get_response\<close> logs its call and raises.\<close>

definition raising_agent :: "string \<Rightarrow> error \<Rightarrow> call_log agent" where
  "raising_agent name e =
     \<lparr>agent_get_response = Some (True, \<lambda>inp log. (Inl e, log @ [(name, inp)])),
      agent_run = None, agent_sync_run = None, agent_call = None,
      agent_close = Some (\<lambda>log. (Inl e, log @ [(name, ''close'')]))\<rparr>"

text \<open>An executor whose transport fails on every call, and an \<^verbatim>\<open>initialize\<close> that
  finds no endpoint.\<close>

definition failing_executor :: "error \<Rightarrow> call_log agent_executor" where
  "failing_executor e =
     \<lparr>ainvoke = (\<lambda>inp log. (Inl e, log @ [(''ainvoke'', inp)])),
      invoke = (\<lambda>inp log. (Inl e, log @ [(''invoke'', inp)]))\<rparr>"

definition no_endpoint :: "call_log \<Rightarrow> (error + call_log agent_executor) \<times> call_log" where
  "no_endpoint log =
     (Inl (ValueError ''AZURE_OPENAI_ENDPOINT environment variable is required''), log)"

text \<open>An \<^verbatim>\<open>initialize\<close> of the orchestrator that finds its environment variables
  missing.\<close>

definition missing_environment ::
  "call_log orchestrator \<Rightarrow> call_log \<Rightarrow> (error + call_log orchestrator) \<times> call_log" where
  "missing_environment self log =
     (Inl (ValueError ''Missing required environment variables.''), log)"

text \<open>A method that logs its call and returns a fixed Python value, and agents that
  offer it under one attribute each: a coroutine \<^verbatim>\<open>get_response\<close>, a \<^verbatim>\<open>run\<close>
  (coroutine or not), a \<^verbatim>\<open>sync_run\<close>, or the agent being callable.\<close>

definition logged_reply :: "string \<Rightarrow> pyval \<Rightarrow> call_log agent_method" where
  "logged_reply name reply = (\<lambda>inp log. (Inr reply, log @ [(name, inp)]))"

definition get_response_agent :: "string \<Rightarrow> pyval \<Rightarrow> call_log agent" where
  "get_response_agent name reply =
     \<lparr>agent_get_response = Some (True, logged_reply name reply), agent_run = None,
      agent_sync_run = None, agent_call = None, agent_close = None\<rparr>"

definition run_agent :: "string \<Rightarrow> bool \<Rightarrow> pyval \<Rightarrow> call_log agent" where
  "run_agent name is_coroutine reply =
     \<lparr>agent_get_response = None, agent_run = Some (is_coroutine, logged_reply name reply),
      agent_sync_run = None, agent_call = None, agent_close = None\<rparr>"

definition sync_run_agent :: "string \<Rightarrow> pyval \<Rightarrow> call_log agent" where
  "sync_run_agent name reply =
     \<lparr>agent_get_response = None, agent_run = None,
      agent_sync_run = Some (logged_reply name reply), agent_call = None, agent_close = None\<rparr>"

definition callable_agent :: "string \<Rightarrow> pyval \<Rightarrow> call_log agent" where
  "callable_agent name reply =
     \<lparr>agent_get_response = None, agent_run = None, agent_sync_run = None,
      agent_call = Some (logged_reply name reply), agent_close = None\<rparr>"

text \<open>An agent whose coroutine \<^verbatim>\<open>run\<close> raises on the empty input and replies
  otherwise.\<close>

definition picky_agent :: "string \<Rightarrow> pyval \<Rightarrow> call_log agent" where
  "picky_agent name reply =
     \<lparr>agent_get_response = None,
      agent_run = Some (True, \<lambda>inp log.
        if inp = [] then (Inl (ValueError ''empty input''), log @ [(name, inp)])
        else (Inr reply, log @ [(name, inp)])),
      agent_sync_run = None, agent_call = None, agent_close = None\<rparr>"

text \<open>A reply object with a text field \<open>T\<close> and a content field \<open>C\<close>.\<close>

definition both_fields :: pyval where
  "both_fields = PObj (Some (PStr ''T'')) (Some (PStr ''C'')) None ''obj''"

section \<open>Properties of the normalizer\<close>

text \<open>
  C3, as the spec states it: an object exposing both a content-like and a text-like field
  with different values is normalized to the content-like value. The code tests
  \<^verbatim>\<open>hasattr(result, 'text')\<close> first, so this fails: an object with text \<open>T\<close> and
  content \<open>C\<close> is normalized to \<open>T\<close>.
\<close>

theorem extract_content_priority_counterexample:
  "extract_content (PObj (Some (PStr ''T'')) (Some (PStr ''C'')) None ''obj'') \<noteq> PStr ''C''"
  by (simp add: extract_content_def)

text \<open>
  C3, amended: for every reply object that exposes a text-like field, with or without a
  content-like field beside it, \<^verbatim>\<open>extract_content\<close> selects the text-like value
  (text-like takes priority over content-like); the content-like value is selected only
  for an object exposing no text-like field. Inside \<^verbatim>\<open>SequentialWorkflow.run\<close> the
  three branches that call \<^verbatim>\<open>run\<close> or \<^verbatim>\<open>sync_run\<close> return the text-like value
  of such a reply as well, only the \<^verbatim>\<open>get_response\<close> branch returns the
  content-like value of a reply exposing one, and the branch that calls the agent itself
  returns the reply as it is.
\<close>

theorem extract_content_text_priority:
  "extract_content (PObj (Some t) c m s) = t \<and>
   extract_content (PObj None (Some v) m s) = v \<and>
   unwrap_text_first (PObj (Some t) c m s) = t \<and>
   unwrap_content_first (PObj t' (Some v) m s) = v \<and>
   (coroutine_method (agent_get_response a1) = Some f1 \<and>
    f1 inp w = (Inr (PObj t' (Some v) m s), w')
      \<longrightarrow> invoke_agent a1 inp w = (Inr v, w')) \<and>
   (coroutine_method (agent_get_response a2) = None \<and>
    coroutine_method (agent_run a2) = Some f2 \<and>
    f2 inp w = (Inr (PObj (Some t) c m s), w')
      \<longrightarrow> invoke_agent a2 inp w = (Inr t, w')) \<and>
   (coroutine_method (agent_get_response a3) = None \<and>
    coroutine_method (agent_run a3) = None \<and>
    agent_sync_run a3 = Some f3 \<and>
    f3 inp w = (Inr (PObj (Some t) c m s), w')
      \<longrightarrow> invoke_agent a3 inp w = (Inr t, w')) \<and>
   (coroutine_method (agent_get_response a4) = None \<and>
    coroutine_method (agent_run a4) = None \<and>
    agent_sync_run a4 = None \<and>
    any_method (agent_run a4) = Some f4 \<and>
    f4 inp w = (Inr (PObj (Some t) c m s), w')
      \<longrightarrow> invoke_agent a4 inp w = (Inr t, w')) \<and>
   (coroutine_method (agent_get_response a5) = None \<and>
    coroutine_method (agent_run a5) = None \<and>
    agent_sync_run a5 = None \<and>
    any_method (agent_run a5) = None \<and>
    agent_call a5 = Some f5
      \<longrightarrow> invoke_agent a5 inp w = f5 inp w)"
  by (simp add: extract_content_def unwrap_text_first_def unwrap_content_first_def
        invoke_agent_def)

text \<open>Witness for C3: one agent per branch, each replying with the same object that has
  both fields.\<close>

theorem extract_content_text_priority_witness:
  "invoke_agent (get_response_agent ''azure'' both_fields) ''q'' [] =
     (Inr (PStr ''C''), [(''azure'', ''q'')]) \<and>
   invoke_agent (run_agent ''blog'' True both_fields) ''q'' [] =
     (Inr (PStr ''T''), [(''blog'', ''q'')]) \<and>
   invoke_agent (sync_run_agent ''blog'' both_fields) ''q'' [] =
     (Inr (PStr ''T''), [(''blog'', ''q'')]) \<and>
   invoke_agent (run_agent ''blog'' False both_fields) ''q'' [] =
     (Inr (PStr ''T''), [(''blog'', ''q'')]) \<and>
   invoke_agent (callable_agent ''fn'' both_fields) ''q'' [] =
     (Inr both_fields, [(''fn'', ''q'')]) \<and>
   extract_content both_fields = PStr ''T''"
proof -
  let ?w' = "[(''blog'', ''q'')] :: call_log"
  have h1: "coroutine_method (agent_get_response (get_response_agent ''azure'' both_fields)) =
              Some (logged_reply ''azure'' both_fields)"
    by (simp add: get_response_agent_def)
  have h2: "coroutine_method (agent_get_response (run_agent ''blog'' True both_fields)) = None \<and>
            coroutine_method (agent_run (run_agent ''blog'' True both_fields)) =
              Some (logged_reply ''blog'' both_fields)"
    by (simp add: run_agent_def)
  have h3: "coroutine_method (agent_get_response (sync_run_agent ''blog'' both_fields)) = None \<and>
            coroutine_method (agent_run (sync_run_agent ''blog'' both_fields)) = None \<and>
            agent_sync_run (sync_run_agent ''blog'' both_fields) =
              Some (logged_reply ''blog'' both_fields)"
    by (simp add: sync_run_agent_def)
  have h4: "coroutine_method (agent_get_response (run_agent ''blog'' False both_fields)) = None \<and>
            coroutine_method (agent_run (run_agent ''blog'' False both_fields)) = None \<and>
            agent_sync_run (run_agent ''blog'' False both_fields) = None \<and>
            any_method (agent_run (run_agent ''blog'' False both_fields)) =
              Some (logged_reply ''blog'' both_fields)"
    by (simp add: run_agent_def)
  have h5: "coroutine_method (agent_get_response (callable_agent ''fn'' both_fields)) = None \<and>
            coroutine_method (agent_run (callable_agent ''fn'' both_fields)) = None \<and>
            agent_sync_run (callable_agent ''fn'' both_fields) = None \<and>
            any_method (agent_run (callable_agent ''fn'' both_fields)) = None \<and>
            agent_call (callable_agent ''fn'' both_fields) = Some (logged_reply ''fn'' both_fields)"
    by (simp add: callable_agent_def)
  have r1: "logged_reply ''azure'' both_fields ''q'' [] =
              (Inr (PObj (Some (PStr ''T'')) (Some (PStr ''C'')) None ''obj''), [(''azure'', ''q'')])"
    by (simp add: logged_reply_def both_fields_def)
  have r2: "logged_reply ''blog'' both_fields ''q'' [] =
              (Inr (PObj (Some (PStr ''T'')) (Some (PStr ''C'')) None ''obj''), ?w')"
    by (simp add: logged_reply_def both_fields_def)
  have r5: "logged_reply ''fn'' both_fields ''q'' [] = (Inr both_fields, [(''fn'', ''q'')])"
    by (simp add: logged_reply_def)
  have t1: "invoke_agent (get_response_agent ''azure'' both_fields) ''q'' [] =
              (Inr (PStr ''C''), [(''azure'', ''q'')])"
    using extract_content_text_priority
      [where ?a1.0 = "get_response_agent ''azure'' both_fields"
         and ?f1.0 = "logged_reply ''azure'' both_fields"
         and inp = "''q''" and w = "[]" and w' = "[(''azure'', ''q'')]"
         and t' = "Some (PStr ''T'')" and v = "PStr ''C''" and m = None and s = "''obj''"]
      h1 r1 by simp
  have t2: "invoke_agent (run_agent ''blog'' True both_fields) ''q'' [] = (Inr (PStr ''T''), ?w') \<and>
            invoke_agent (sync_run_agent ''blog'' both_fields) ''q'' [] = (Inr (PStr ''T''), ?w') \<and>
            invoke_agent (run_agent ''blog'' False both_fields) ''q'' [] = (Inr (PStr ''T''), ?w') \<and>
            invoke_agent (callable_agent ''fn'' both_fields) ''q'' [] =
              (Inr both_fields, [(''fn'', ''q'')]) \<and>
            extract_content both_fields = PStr ''T''"
    using extract_content_text_priority
      [where ?a2.0 = "run_agent ''blog'' True both_fields"
         and ?f2.0 = "logged_reply ''blog'' both_fields"
         and ?a3.0 = "sync_run_agent ''blog'' both_fields"
         and ?f3.0 = "logged_reply ''blog'' both_fields"
         and ?a4.0 = "run_agent ''blog'' False both_fields"
         and ?f4.0 = "logged_reply ''blog'' both_fields"
         and ?a5.0 = "callable_agent ''fn'' both_fields"
         and ?f5.0 = "logged_reply ''fn'' both_fields"
         and inp = "''q''" and w = "[]" and w' = ?w'
         and t = "PStr ''T''" and c = "Some (PStr ''C'')" and m = None and s = "''obj''"]
      h2 h3 h4 h5 r2 r5 by (simp add: both_fields_def)
  from t1 t2 show ?thesis by simp
qed

text \<open>
  C7: normalizing \<^verbatim>\<open>None\<close> yields the text \<^verbatim>\<open>"No content generated"\<close> and the
  empty metadata mapping.
\<close>

theorem normalize_None:
  "normalize_reply PNone = (PStr ''No content generated'', [])"
  by (simp add: normalize_reply_def extract_content_def extract_metadata_def)

text \<open>
  C8: for every plain string \<open>s\<close>, normalizing \<open>s\<close> returns \<open>s\<close> itself with empty
  metadata, so normalizing the text of that result again changes nothing.
\<close>

theorem normalize_str:
  "normalize_reply (PStr s) = (PStr s, []) \<and>
   normalize_reply (fst (normalize_reply (PStr s))) = normalize_reply (PStr s)"
  by (simp add: normalize_reply_def extract_content_def extract_metadata_def)

section \<open>Properties of the workflow loop\<close>

text \<open>The loop over a concatenated agent list is the loop over the first part, continued
  on the second with the state and the world the first part left.\<close>

lemma run_loop_append:
  "run_loop n i (xs @ ys) st w =
     (case run_loop n i xs st w of
        (Inl e, w') \<Rightarrow> (Inl e, w')
      | (Inr st', w') \<Rightarrow> run_loop n (i + length xs) ys st' w')"
proof (induction xs arbitrary: i st w)
  case Nil
  then show ?case by simp
next
  case (Cons a xs)
  obtain results cur where st: "st = (results, cur)" by (cases st)
  show ?case
    by (simp add: st Cons.IH split: prod.splits sum.splits)
qed

text \<open>The dispatch is its call followed by its unwrapping.\<close>

lemma on_return_same: "on_return (\<lambda>result. result) p = p"
proof (cases p)
  case (Pair r w)
  then show ?thesis by (cases r) simp_all
qed

lemma invoke_agent_selected:
  "invoke_agent agent current_input w =
     on_return (selected_unwrap agent) (selected_call agent current_input w)"
  by (simp add: invoke_agent_def selected_call_def selected_unwrap_def on_return_same
           split: option.splits)

text \<open>One iteration that returns: the call returned, and the loop appended the unwrapped
  reply and computed the next input from it.\<close>

lemma run_loop_single:
  assumes "run_loop n i [a] (acc, c) w = (Inr (res, cur), w')"
  shows "\<exists>raw. selected_call a c w = (Inr raw, w') \<and>
               res = acc @ [selected_unwrap a raw] \<and>
               cur = next_input n i (selected_unwrap a raw) c"
proof (cases "selected_call a c w")
  case (Pair r w1)
  show ?thesis
  proof (cases r)
    case (Inl e)
    with Pair assms show ?thesis by (simp add: invoke_agent_selected)
  next
    case (Inr raw)
    with Pair assms show ?thesis by (simp add: invoke_agent_selected)
  qed
qed

text \<open>A loop that returns on a concatenated list returned on its first part.\<close>

lemma run_loop_split:
  assumes "run_loop n i (xs @ ys) st w = (Inr st2, w2)"
  shows "\<exists>st1 w1. run_loop n i xs st w = (Inr st1, w1) \<and>
                  run_loop n (i + length xs) ys st1 w1 = (Inr st2, w2)"
  using assms by (auto simp: run_loop_append split: prod.splits sum.splits)

text \<open>A loop that returns has appended one result per agent to the results it started
  with.\<close>

lemma run_loop_results:
  "run_loop n i as (acc, c) w = (Inr (res, cur), w') \<Longrightarrow>
     \<exists>rs. res = acc @ rs \<and> length rs = length as"
proof (induction as arbitrary: i acc c w)
  case Nil
  then show ?case by simp
next
  case (Cons a as)
  from Cons.prems obtain result w1 where
    call: "invoke_agent a c w = (Inr result, w1)" and
    rest: "run_loop n (Suc i) as (acc @ [result], next_input n i result c) w1 = (Inr (res, cur), w')"
    by (auto split: prod.splits sum.splits)
  from Cons.IH [OF rest] obtain rs where "res = (acc @ [result]) @ rs" and "length rs = length as"
    by blast
  then have "res = acc @ (result # rs) \<and> length (result # rs) = length (a # as)" by simp
  then show ?case by blast
qed

text \<open>If each call returns whenever the stages before it have returned, the loop returns
  on every initial part of the agent list.\<close>

lemma run_loop_prefix_returns:
  assumes calls: "\<forall>k < length as. \<forall>results cur wk.
             run_loop n 0 (take k as) ([], topic_str) w = (Inr (results, cur), wk)
             \<longrightarrow> (\<exists>raw wk'. selected_call (as ! k) cur wk = (Inr raw, wk'))"
      and "k \<le> length as"
  shows "\<exists>results cur wk. run_loop n 0 (take k as) ([], topic_str) w = (Inr (results, cur), wk)"
  using assms(2)
proof (induction k)
  case 0
  then show ?case by simp
next
  case (Suc k)
  then have k: "k < length as" by simp
  with Suc.IH obtain results cur wk where
    pre: "run_loop n 0 (take k as) ([], topic_str) w = (Inr (results, cur), wk)" by auto
  with calls k obtain raw wk' where call: "selected_call (as ! k) cur wk = (Inr raw, wk')"
    by blast
  have "take (Suc k) as = take k as @ [as ! k]"
    using k by (simp add: take_Suc_conv_app_nth)
  then have "run_loop n 0 (take (Suc k) as) ([], topic_str) w =
               (Inr (results @ [selected_unwrap (as ! k) raw],
                     next_input n (length (take k as)) (selected_unwrap (as ! k) raw) cur), wk')"
    using pre call by (simp add: run_loop_append invoke_agent_selected)
  then show ?case by blast
qed

text \<open>
  C1, as the spec states it: when a stage's call raises, \<^verbatim>\<open>run\<close> catches the
  exception, records a failed reply and ends with status Failed. The loop has no
  \<^verbatim>\<open>try\<close>: in a two-stage pipeline whose second agent raises, \<^verbatim>\<open>run\<close> returns
  no reply list at all; the exception of the agent is what the caller gets.
\<close>

theorem run_swallows_no_exception_counterexample:
  "fst (run \<lparr>agents = [replying_agent ''research'' ''notes'',
                         raising_agent ''blog'' (TransportError ''quota exceeded'')]\<rparr>
          ''edge'' []) = Inl (TransportError ''quota exceeded'')"
  by (simp add: run_def invoke_agent_def replying_agent_def raising_agent_def)

text \<open>
  C1, amended: for every pipeline run in which the stages before some stage return and
  that stage's call raises, \<^verbatim>\<open>SequentialWorkflow.run\<close> does not catch the exception:
  it propagates to the caller of \<^verbatim>\<open>run\<close>, and through
  \<^verbatim>\<open>create_blog_from_topic\<close> to its caller, so that no reply list and no status is
  returned. No later stage is invoked: the world is left as the raising call left it,
  whatever the later stages are.
\<close>

theorem stage_exception_propagates:
  assumes "run_loop (length (pre @ a # post)) 0 pre ([], topic_str) w = (Inr (results, cur), w1)"
      and "invoke_agent a cur w1 = (Inl e, w2)"
  shows "run \<lparr>agents = pre @ a # post\<rparr> topic_str w = (Inl e, w2) \<and>
         (pre @ a # post = [ra, ba] \<longrightarrow>
            create_blog_from_topic ini \<lparr>research_agent = Some ra, blog_agent = Some ba\<rparr>
              topic_str w = (Inl e, w2))"
proof -
  have r: "run \<lparr>agents = pre @ a # post\<rparr> topic_str w = (Inl e, w2)"
    using assms by (simp add: run_def run_loop_append)
  show ?thesis
  proof (intro conjI impI)
    show "run \<lparr>agents = pre @ a # post\<rparr> topic_str w = (Inl e, w2)" by (rule r)
  next
    assume "pre @ a # post = [ra, ba]"
    with r have "run \<lparr>agents = [ra, ba]\<rparr> topic_str w = (Inl e, w2)" by simp
    then show "create_blog_from_topic ini \<lparr>research_agent = Some ra, blog_agent = Some ba\<rparr>
              topic_str w = (Inl e, w2)"
      by (simp add: create_blog_from_topic_def SequentialWorkflow_init_def)
  qed
qed

text \<open>Witness for C1: the first of two agents raises; the log holds its call only.\<close>

theorem stage_exception_propagates_witness:
  "run \<lparr>agents = [raising_agent ''research'' (TransportError ''timeout''),
                    replying_agent ''blog'' ''A post'']\<rparr> ''edge'' [] =
     (Inl (TransportError ''timeout''), [(''research'', ''edge'')]) \<and>
   create_blog_from_topic missing_environment
     \<lparr>research_agent = Some (raising_agent ''research'' (TransportError ''timeout'')),
      blog_agent = Some (replying_agent ''blog'' ''A post'')\<rparr> ''edge'' [] =
     (Inl (TransportError ''timeout''), [(''research'', ''edge'')])"
proof -
  let ?a = "raising_agent ''research'' (TransportError ''timeout'')"
  let ?b = "replying_agent ''blog'' ''A post''"
  have h1: "run_loop (length ([] @ ?a # [?b])) 0 [] ([], ''edge'') [] = (Inr ([], ''edge''), [])"
    by simp
  have h2: "invoke_agent ?a ''edge'' [] = (Inl (TransportError ''timeout''), [(''research'', ''edge'')])"
    by (simp add: invoke_agent_def raising_agent_def)
  from stage_exception_propagates [OF h1 h2, where ra = ?a and ba = ?b and ini = missing_environment]
  show ?thesis by simp
qed

text \<open>
  C2: stage 0 receives the topic verbatim and every later stage receives the text of the
  stage before it through the prompt template; so stage 2 of three stages is to receive
  the prompt built from stage 1's reply. Evaluating \<^verbatim>\<open>run\<close> on three logging agents
  shows what the code does: \<^verbatim>\<open>current_input\<close> is rebuilt only when \<^verbatim>\<open>i == 0\<close>,
  so the third agent receives the prompt built from the first agent's reply, the same
  input as the second agent, and the second agent's reply reaches no one.
\<close>

theorem three_stage_inputs:
  "snd (run \<lparr>agents = [replying_agent ''A'' ''outA'', replying_agent ''B'' ''outB'',
                         replying_agent ''C'' ''outC'']\<rparr> ''topic'' []) =
     [(''A'', ''topic''), (''B'', blog_prompt ''outA''), (''C'', blog_prompt ''outA'')] \<and>
   blog_prompt ''outA'' \<noteq> blog_prompt ''outB''"
  by (simp add: run_def invoke_agent_def replying_agent_def next_input_def unwrap_text_first_def
        blog_prompt_def NL_def indent_def)

text \<open>
  C4, as the spec states it: constructing a pipeline with an empty stage list raises a
  configuration error. \<^verbatim>\<open>__init__\<close> only stores the list, so the construction
  succeeds.
\<close>

theorem empty_stage_list_counterexample:
  "SequentialWorkflow_init ([] :: call_log agent list) = Inr \<lparr>agents = []\<rparr>"
  by (simp add: SequentialWorkflow_init_def)

text \<open>
  C4, amended: constructing a pipeline never fails, whatever the stage list, the empty
  list included; running the pipeline built from the empty list returns the empty result
  list and leaves the world untouched.
\<close>

theorem init_accepts_every_list:
  "SequentialWorkflow_init agent_list = Inr \<lparr>agents = agent_list\<rparr> \<and>
   run \<lparr>agents = []\<rparr> topic_str w = (Inr [], w)"
  by (simp add: SequentialWorkflow_init_def run_def)

text \<open>
  C6, as the spec states it: when every agent call returns, the result holds one
  normalized reply per stage. The last branch of the dispatch, \<^verbatim>\<open>await
  agent(current_input)\<close>, appends what the agent returned with no unwrapping: for a
  callable agent replying with an object whose text field is \<open>T\<close>, the result holds the
  object itself, which is not its normalized text \<open>T\<close>.
\<close>

theorem raw_reply_counterexample:
  "fst (run \<lparr>agents = [callable_agent ''research'' both_fields]\<rparr> ''edge'' []) =
     Inr [PObj (Some (PStr ''T'')) (Some (PStr ''C'')) None ''obj''] \<and>
   normalize_reply (PObj (Some (PStr ''T'')) (Some (PStr ''C'')) None ''obj'') = (PStr ''T'', [])"
  by (simp add: run_def invoke_agent_def callable_agent_def logged_reply_def both_fields_def
        normalize_reply_def extract_content_def extract_metadata_def)

text \<open>
  C6, amended: for every non-empty stage list and every run in which every agent call
  returns without raising (whenever the stages before stage \<open>k\<close> have returned, the call
  of stage \<open>k\<close>, made on the input and in the world they left, returns), \<^verbatim>\<open>run\<close>
  returns a list with exactly one reply per stage, in stage order: as many replies as
  stages, the reply at position \<open>k\<close> being what the agent of stage \<open>k\<close> returned to that
  call of this run, unwrapped by the chain of its dispatch branch; for an agent that is
  only callable the reply is stored as returned, without normalization.
\<close>

theorem run_one_reply_per_stage:
  assumes "agents workflow \<noteq> []"
      and "\<forall>k < length (agents workflow). \<forall>results cur wk.
             run_loop (length (agents workflow)) 0 (take k (agents workflow)) ([], topic_str) w =
               (Inr (results, cur), wk)
             \<longrightarrow> (\<exists>raw wk'. selected_call (agents workflow ! k) cur wk = (Inr raw, wk'))"
  shows "(\<exists>replies w'.
            run workflow topic_str w = (Inr replies, w') \<and>
            length replies = length (agents workflow) \<and>
            (\<forall>k < length (agents workflow). \<exists>results cur wk raw wk'.
               run_loop (length (agents workflow)) 0 (take k (agents workflow)) ([], topic_str) w =
                 (Inr (results, cur), wk) \<and>
               selected_call (agents workflow ! k) cur wk = (Inr raw, wk') \<and>
               replies ! k = selected_unwrap (agents workflow ! k) raw)) \<and>
         (coroutine_method (agent_get_response a) = None \<and>
          coroutine_method (agent_run a) = None \<and>
          agent_sync_run a = None \<and>
          any_method (agent_run a) = None
            \<longrightarrow> selected_unwrap a reply = reply)"
proof -
  let ?as = "agents workflow"
  let ?n = "length ?as"
  from run_loop_prefix_returns [OF assms(2), of ?n]
  obtain replies cur' w' where
    whole: "run_loop ?n 0 ?as ([], topic_str) w = (Inr (replies, cur'), w')"
    by auto
  have ret: "run workflow topic_str w = (Inr replies, w')"
    using whole by (simp add: run_def)
  have len: "length replies = ?n"
    using run_loop_results [OF whole] by auto
  have each: "\<exists>results cur wk raw wk'.
                run_loop ?n 0 (take k ?as) ([], topic_str) w = (Inr (results, cur), wk) \<and>
                selected_call (?as ! k) cur wk = (Inr raw, wk') \<and>
                replies ! k = selected_unwrap (?as ! k) raw" if k: "k < ?n" for k
  proof -
    have parts: "?as = (take k ?as @ [?as ! k]) @ drop (Suc k) ?as"
      using k by (simp add: take_Suc_conv_app_nth [symmetric])
    from whole have "run_loop ?n 0 ((take k ?as @ [?as ! k]) @ drop (Suc k) ?as) ([], topic_str) w =
                       (Inr (replies, cur'), w')"
      using parts by simp
    from run_loop_split [OF this] obtain res1 cur1 w1 where
      upto: "run_loop ?n 0 (take k ?as @ [?as ! k]) ([], topic_str) w = (Inr (res1, cur1), w1)" and
      after: "run_loop ?n (0 + length (take k ?as @ [?as ! k])) (drop (Suc k) ?as) (res1, cur1) w1 =
                (Inr (replies, cur'), w')"
      by auto
    from run_loop_split [OF upto] obtain res0 cur0 w0 where
      before: "run_loop ?n 0 (take k ?as) ([], topic_str) w = (Inr (res0, cur0), w0)" and
      stage: "run_loop ?n (0 + length (take k ?as)) [?as ! k] (res0, cur0) w0 = (Inr (res1, cur1), w1)"
      by auto
    from run_loop_single [OF stage] obtain raw where
      call: "selected_call (?as ! k) cur0 w0 = (Inr raw, w1)" and
      res1: "res1 = res0 @ [selected_unwrap (?as ! k) raw]"
      by blast
    from run_loop_results [OF before] have len0: "length res0 = k"
      using k by auto
    from run_loop_results [OF after] obtain rs where "replies = res1 @ rs" by blast
    with res1 len0 have "replies ! k = selected_unwrap (?as ! k) raw"
      by (simp add: nth_append)
    with before call show ?thesis by blast
  qed
  have kept: "coroutine_method (agent_get_response a) = None \<and>
              coroutine_method (agent_run a) = None \<and>
              agent_sync_run a = None \<and>
              any_method (agent_run a) = None
                \<longrightarrow> selected_unwrap a reply = reply"
    by (simp add: selected_unwrap_def)
  from ret len each have "\<exists>replies w'.
            run workflow topic_str w = (Inr replies, w') \<and>
            length replies = length (agents workflow) \<and>
            (\<forall>k < length (agents workflow). \<exists>results cur wk raw wk'.
               run_loop (length (agents workflow)) 0 (take k (agents workflow)) ([], topic_str) w =
                 (Inr (results, cur), wk) \<and>
               selected_call (agents workflow ! k) cur wk = (Inr raw, wk') \<and>
               replies ! k = selected_unwrap (agents workflow ! k) raw)"
    by blast
  with kept show ?thesis by (rule conjI [rotated])
qed

text \<open>Witness for C6: a first agent that would raise on an empty input but returns in
  this run, then a callable agent whose object reply is stored as returned.\<close>

theorem run_one_reply_per_stage_witness:
  "run \<lparr>agents = [picky_agent ''research'' (PObj (Some (PStr ''notes'')) None None ''obj''),
                    callable_agent ''blog'' both_fields]\<rparr> ''edge'' [] =
     (Inr [PStr ''notes'', both_fields],
      [(''research'', ''edge''), (''blog'', blog_prompt ''notes'')]) \<and>
   selected_unwrap (callable_agent ''blog'' both_fields) both_fields = both_fields"
proof -
  let ?a = "picky_agent ''research'' (PObj (Some (PStr ''notes'')) None None ''obj'')"
  let ?b = "callable_agent ''blog'' both_fields"
  let ?wf = "\<lparr>agents = [?a, ?b]\<rparr>"
  have h1: "agents ?wf \<noteq> []" by simp
  have h2: "\<forall>k < length (agents ?wf). \<forall>results cur wk.
             run_loop (length (agents ?wf)) 0 (take k (agents ?wf)) ([], ''edge'') [] =
               (Inr (results, cur), wk)
             \<longrightarrow> (\<exists>raw wk'. selected_call (agents ?wf ! k) cur wk = (Inr raw, wk'))"
    by (simp add: less_Suc_eq all_conj_distrib invoke_agent_def selected_call_def picky_agent_def
          callable_agent_def logged_reply_def next_input_def unwrap_text_first_def
          blog_prompt_def NL_def)
  have h3: "coroutine_method (agent_get_response ?b) = None \<and>
            coroutine_method (agent_run ?b) = None \<and>
            agent_sync_run ?b = None \<and>
            any_method (agent_run ?b) = None"
    by (simp add: callable_agent_def)
  from run_one_reply_per_stage [OF h1 h2, where a = ?b and reply = both_fields] h3
  obtain replies w' where "run ?wf ''edge'' [] = (Inr replies, w')"
    and "selected_unwrap ?b both_fields = both_fields" by blast
  then show ?thesis
    by (simp add: run_def invoke_agent_def picky_agent_def callable_agent_def logged_reply_def
          next_input_def unwrap_text_first_def blog_prompt_def NL_def both_fields_def)
qed

text \<open>
  C9: the next-stage input computed by the template (after stage 0 of a pipeline of more
  than one stage, the only place where the template is applied) is a function of the
  previous stage's text alone: two computations on the same text give the same string,
  whatever the topic held in \<^verbatim>\<open>current_input\<close>, the number of stages and the shape of
  the object that carried the text.
\<close>

theorem next_input_deterministic:
  assumes "1 < n" and "1 < n'"
      and "py_str (unwrap_text_first r) = py_str (unwrap_text_first r')"
  shows "next_input n 0 r c = next_input n' 0 r' c'"
  using assms by (simp add: next_input_def)

text \<open>Witness for C9: the same text, once as a plain string in a two-stage pipeline and
  once as the text field of an object in a three-stage pipeline, with different topics.\<close>

theorem next_input_deterministic_witness:
  "next_input 2 0 (PStr ''notes'') ''topic one'' =
   next_input 3 0 (PObj (Some (PStr ''notes'')) None None ''obj'') ''topic two''"
proof -
  have h: "py_str (unwrap_text_first (PStr ''notes'')) =
           py_str (unwrap_text_first (PObj (Some (PStr ''notes'')) None None ''obj''))"
    by (simp add: unwrap_text_first_def)
  from next_input_deterministic [OF _ _ h, where n = 2 and n' = 3 and c = "''topic one''" and c' = "''topic two''"]
  show ?thesis by simp
qed

section \<open>Properties of the orchestrator and of the adapter\<close>

text \<open>
  C10: \<^verbatim>\<open>cleanup\<close> never raises: for every orchestrator (each agent present or
  absent, with or without a \<^verbatim>\<open>close\<close> method, \<^verbatim>\<open>close\<close> returning or raising any
  exception) and every world, it returns normally.
\<close>

theorem cleanup_never_raises:
  "fst (cleanup self w) = Inr ()"
  by (simp add: cleanup_def close_block_def split: option.splits prod.splits sum.splits)

text \<open>
  C5, as the spec states it: when the transport call fails, the text of the returned reply
  starts with the marker \<^verbatim>\<open>"Error: "\<close>. The handler writes
  \<^verbatim>\<open>f"Error generating blog post: {str(e)}"\<close>, which does not start with that marker.
\<close>

theorem error_marker_counterexample:
  "LangChainBlogAgent_sync_run no_endpoint
     \<lparr>agent_executor = Some (failing_executor (TransportError ''quota exceeded''))\<rparr>
     ''topic'' [] =
     (Inr (BlogResult ''Error generating blog post: quota exceeded''
             (Some [(''error'', MStr ''quota exceeded''), (''agent_type'', MStr ''langchain'')])),
      [(''invoke'', ''topic'')]) \<and>
   \<not> prefix ''Error: '' ''Error generating blog post: quota exceeded''"
  by (simp add: LangChainBlogAgent_sync_run_def ensure_executor_def sync_run_try_def
        failing_executor_def error_result_def)

text \<open>
  C5, amended: for every invocation of the adapter (\<^verbatim>\<open>run\<close> or \<^verbatim>\<open>sync_run\<close>,
  with an executor at hand) whose transport call fails with an exception of class
  \<^verbatim>\<open>Exception\<close>, the adapter returns a reply object, not the exception, and the text
  field of the reply is the fixed marker \<^verbatim>\<open>"Error generating blog post: "\<close> followed
  by the text of the exception.
\<close>

theorem adapter_error_reply:
  assumes "is_Exception e"
      and "ensure_executor ini self w = (Inr ex, w0)"
  shows "(ainvoke ex inp w0 = (Inl e, w1) \<longrightarrow>
            LangChainBlogAgent_run ini self inp w = (Inr (error_result e), w1)) \<and>
         (invoke ex inp w0 = (Inl e, w2) \<longrightarrow>
            LangChainBlogAgent_sync_run ini self inp w = (Inr (error_result e), w2)) \<and>
         getattr_text (error_result e) =
            Some (PStr (''Error generating blog post: '' @ str_exc e))"
  using assms
  by (simp add: LangChainBlogAgent_run_def LangChainBlogAgent_sync_run_def run_try_def
        sync_run_try_def error_result_def BlogResult_def)

text \<open>Witness for C5: an executor whose transport times out, under both entry points.\<close>

theorem adapter_error_reply_witness:
  "LangChainBlogAgent_run no_endpoint
     \<lparr>agent_executor = Some (failing_executor (TransportError ''timeout''))\<rparr> ''draft'' [] =
     (Inr (error_result (TransportError ''timeout'')), [(''ainvoke'', ''draft'')]) \<and>
   LangChainBlogAgent_sync_run no_endpoint
     \<lparr>agent_executor = Some (failing_executor (TransportError ''timeout''))\<rparr> ''draft'' [] =
     (Inr (error_result (TransportError ''timeout'')), [(''invoke'', ''draft'')]) \<and>
   getattr_text (error_result (TransportError ''timeout'')) =
     Some (PStr ''Error generating blog post: timeout'')"
proof -
  let ?ex = "failing_executor (TransportError ''timeout'')"
  have h1: "is_Exception (TransportError ''timeout'')" by simp
  have h2: "ensure_executor no_endpoint \<lparr>agent_executor = Some ?ex\<rparr> [] = (Inr ?ex, [])"
    by (simp add: ensure_executor_def)
  have h3: "ainvoke ?ex ''draft'' [] = (Inl (TransportError ''timeout''), [(''ainvoke'', ''draft'')])"
    by (simp add: failing_executor_def)
  have h4: "invoke ?ex ''draft'' [] = (Inl (TransportError ''timeout''), [(''invoke'', ''draft'')])"
    by (simp add: failing_executor_def)
  from adapter_error_reply [OF h1 h2, where inp = "''draft''" and ?w1.0 = "[(''ainvoke'', ''draft'')]" and ?w2.0 = "[(''invoke'', ''draft'')]"] h3 h4
  show ?thesis by simp
qed

end
